theory Spec2Isabelle
  imports Main "HOL-Library.Multiset"
begin

section \<open>Data model\<close>

text \<open>
  The gallery backend is one Express application. It keeps one document per uploaded
  image in a MongoDB collection (the Metadata Store) and the image bytes at Cloudinary
  (the Media Store). The documents follow \<^verbatim>\<open>imageSchema\<close>: every String field of a
  Mongoose schema may be missing, which matters for \<^verbatim>\<open>path\<close> and \<^verbatim>\<open>public_id\<close>
  because the delete route tests them for truthiness. The schema declares no \<^verbatim>\<open>_id\<close>,
  so it is an ObjectId; \<^verbatim>\<open>img_id\<close> holds it the way it is serialised, as 24 lowercase
  hexadecimal digits.
\<close>

record image =
  img_id :: string
  img_filename :: string
  img_originalName :: string
  img_mimetype :: string
  img_size :: nat
  img_path :: "string option"
  img_public_id :: "string option"
  img_uploadDate :: int

text \<open>The list route spreads the document and adds \<^verbatim>\<open>url\<close>.\<close>

record listed = image +
  url :: "string option"

text \<open>
  A JavaScript error value: a \<^verbatim>\<open>MulterError\<close> carries a code and a message, any other
  \<^verbatim>\<open>Error\<close> a message only.
\<close>

datatype js_error = MulterError string string | Error string

fun message :: "js_error \<Rightarrow> string" where
  "message (MulterError c m) = m"
| "message (Error m) = m"

datatype body =
    ErrorBody string
  | MessageBody string
  | ImagesBody "listed list"
  | UploadBody string "image list"

text \<open>A JSON response with its status, or a redirect with its status and Location.\<close>

datatype response = Json nat body | Redirect nat string

text \<open>
  The state the routes act on: the collection in insertion order, the handles passed to
  \<^verbatim>\<open>cloudinary.uploader.destroy\<close>, the original names of the files handed to the
  Cloudinary storage engine, and the lines written with \<^verbatim>\<open>console.error\<close>.
\<close>

record world =
  docs :: "image list"
  destroy_calls :: "string list"
  media_uploads :: "string list"
  console :: "(string \<times> js_error) list"

text \<open>
  What the outside of the source does during one request is an input of the model.
  Each awaited call to MongoDB or Cloudinary either resolves or rejects with the given
  error. \<^verbatim>\<open>scan_rank\<close> is the order in which MongoDB happens to meet the documents
  during this query: a sort leaves documents with equal keys in that order, which MongoDB
  does not fix. The last three fields are details on which the releases of the libraries
  differ: whether the ObjectId constructor of the driver also takes a given string of 12
  characters (before bson 6), whether \<^verbatim>\<open>encodeUrl\<close> still escapes backslash, caret and
  bar (encodeurl 1), and what \<^verbatim>\<open>res.location\<close> puts in place of the word
  \<^verbatim>\<open>back\<close> (the Referrer or a slash in Express 4, nothing in Express 5).
\<close>

record env =
  find_fault :: "js_error option"
  delete_fault :: "js_error option"
  destroy_fault :: "js_error option"
  scan_rank :: "image \<Rightarrow> nat"
  short_ids :: "string \<Rightarrow> bool"
  legacy_encode :: bool
  back_alias :: "string option"

definition console_error :: "string \<Rightarrow> js_error \<Rightarrow> world \<Rightarrow> world" where
  "console_error label er w = w\<lparr>console := console w @ [(label, er)]\<rparr>"

section \<open>String helpers of the JavaScript runtime\<close>

text \<open>\<^verbatim>\<open>s.split(c)\<close> for a one-character separator; the result is never empty.\<close>

fun split_on :: "char \<Rightarrow> string \<Rightarrow> string list" where
  "split_on c [] = [[]]"
| "split_on c (x # xs) =
     (if x = c then [] # split_on c xs
      else (case split_on c xs of [] \<Rightarrow> [[x]] | p # ps \<Rightarrow> (x # p) # ps))"

text \<open>Truthiness of an optional string: \<^verbatim>\<open>undefined\<close> and \<^verbatim>\<open>""\<close> are falsy.\<close>

definition truthy :: "string option \<Rightarrow> bool" where
  "truthy s = (case s of None \<Rightarrow> False | Some v \<Rightarrow> v \<noteq> [])"

text \<open>\<^verbatim>\<open>String.prototype.toLowerCase\<close> on the ASCII letters.\<close>

definition lower_char :: "char \<Rightarrow> char" where
  "lower_char c =
     (let n = (of_char c :: nat) in if 65 \<le> n \<and> n \<le> 90 then char_of (n + 32) else c)"

definition toLowerCase :: "string \<Rightarrow> string" where
  "toLowerCase s = map lower_char s"

text \<open>Hexadecimal digits, and a byte written as two of them.\<close>

definition hex_digit :: "char \<Rightarrow> bool" where
  "hex_digit c = (c \<in> set ''0123456789abcdefABCDEF'')"

definition hex_lower :: "nat \<Rightarrow> char" where
  "hex_lower n = ''0123456789abcdef'' ! (n mod 16)"

definition hex_upper :: "nat \<Rightarrow> char" where
  "hex_upper n = ''0123456789ABCDEF'' ! (n mod 16)"

definition hex_of_char :: "char \<Rightarrow> string" where
  "hex_of_char c = (let n = (of_char c :: nat) in [hex_lower (n div 16), hex_lower n])"

section \<open>Metadata Store operations\<close>

text \<open>
  Mongoose casts the \<^verbatim>\<open>:id\<close> parameter of a route to an ObjectId before it queries.
  A string of 24 hexadecimal digits is one, read without regard to case; a string of 12
  characters is taken as the 12 bytes by the drivers that allow it; for every other string
  the query rejects with a CastError.
\<close>

definition is_object_id :: "string \<Rightarrow> bool" where
  "is_object_id i = (length i = 24 \<and> list_all hex_digit i)"

definition castObjectId :: "env \<Rightarrow> string \<Rightarrow> string option" where
  "castObjectId e i =
     (if is_object_id i then Some (toLowerCase i)
      else if length i = 12 \<and> short_ids e i then Some (concat (map hex_of_char i))
      else None)"

definition CastError :: "string \<Rightarrow> js_error" where
  "CastError i = Error (''Cast to ObjectId failed for value '' @ i)"

definition findById :: "env \<Rightarrow> image list \<Rightarrow> string \<Rightarrow> js_error + image option" where
  "findById e ds i =
     (case castObjectId e i of
        None \<Rightarrow> Inl (CastError i)
      | Some oid \<Rightarrow>
          (case find_fault e of
             Some er \<Rightarrow> Inl er
           | None \<Rightarrow> Inr (find (\<lambda>d. img_id d = oid) ds)))"

fun remove_first :: "('a \<Rightarrow> bool) \<Rightarrow> 'a list \<Rightarrow> 'a list" where
  "remove_first P [] = []"
| "remove_first P (x # xs) = (if P x then xs else x # remove_first P xs)"

definition findByIdAndDelete :: "env \<Rightarrow> string \<Rightarrow> world \<Rightarrow> js_error + world" where
  "findByIdAndDelete e i w =
     (case castObjectId e i of
        None \<Rightarrow> Inl (CastError i)
      | Some oid \<Rightarrow>
          (case delete_fault e of
             Some er \<Rightarrow> Inl er
           | None \<Rightarrow> Inr (w\<lparr>docs := remove_first (\<lambda>d. img_id d = oid) (docs w)\<rparr>)))"

text \<open>
  \<^verbatim>\<open>Image.find().sort({ uploadDate: -1 })\<close>: newest first. The sort is on
  \<^verbatim>\<open>uploadDate\<close> alone, so documents with equal dates come in the order in which this
  query met them (and in collection order when it met them together).
\<close>

definition find_sorted :: "env \<Rightarrow> image list \<Rightarrow> js_error + image list" where
  "find_sorted e ds =
     (case find_fault e of
        Some er \<Rightarrow> Inl er
      | None \<Rightarrow> Inr (sort_key (\<lambda>d. - img_uploadDate d) (sort_key (scan_rank e) ds)))"

section \<open>Media Store deletion\<close>

text \<open>
  \<^verbatim>\<open>cloudinary.uploader.destroy(publicId)\<close> inside its own try block: the call is made,
  and a rejection is only written to the console.
\<close>

definition destroy :: "env \<Rightarrow> string \<Rightarrow> world \<Rightarrow> world" where
  "destroy e publicId w =
     (let w1 = w\<lparr>destroy_calls := destroy_calls w @ [publicId]\<rparr> in
      case destroy_fault e of
        Some er \<Rightarrow> console_error ''Cloudinary deletion error:'' er w1
      | None \<Rightarrow> w1)"

text \<open>The handle the delete route computes from a document (lines 168 to 175).\<close>

definition publicId_of :: "image \<Rightarrow> string option" where
  "publicId_of im =
     (if \<not> truthy (img_public_id im) \<and> truthy (img_path im) then
        (case img_path im of
           None \<Rightarrow> img_public_id im
         | Some p \<Rightarrow>
             (let urlParts = split_on CHR ''/'' p;
                  publicIdWithExtension = last urlParts
              in Some (hd (split_on CHR ''.'' publicIdWithExtension))))
      else img_public_id im)"

section \<open>The Location header of a redirect\<close>

text \<open>
  \<^verbatim>\<open>encodeURI\<close> on one character with a code below 256: letters, digits and
  \<^verbatim>\<open>; / ? : @ & = + $ , - _ . ! ~ * ' ( ) #\<close> stay, every other character becomes the
  percent escapes of its UTF-8 bytes.
\<close>

definition pct :: "nat \<Rightarrow> string" where
  "pct b = [CHR ''%'', hex_upper (b div 16), hex_upper b]"

definition encodeURI_keeps :: "nat \<Rightarrow> bool" where
  "encodeURI_keeps n =
     (n = 0x21 \<or> n = 0x23 \<or> n = 0x24 \<or> (0x26 \<le> n \<and> n \<le> 0x3B) \<or> n = 0x3D
      \<or> (0x3F \<le> n \<and> n \<le> 0x5A) \<or> n = 0x5F \<or> (0x61 \<le> n \<and> n \<le> 0x7A) \<or> n = 0x7E)"

definition encodeURI_char :: "char \<Rightarrow> string" where
  "encodeURI_char c =
     (let n = (of_char c :: nat) in
      if encodeURI_keeps n then [c]
      else if n < 128 then pct n
      else pct (192 + n div 64) @ pct (128 + n mod 64))"

text \<open>
  The characters the pattern of \<^verbatim>\<open>encodeUrl\<close> passes over. Release 2 of encodeurl has
  the class \<^verbatim>\<open>[\x21\x23-\x3B\x3D\x3F-\x5F\x61-\x7A\x7C\x7E]\<close>, release 1 the class
  \<^verbatim>\<open>[\x21\x25\x26-\x3B\x3D\x3F-\x5B\x5D\x5F\x61-\x7A\x7E]\<close>.
\<close>

definition encodeUrl_keeps :: "bool \<Rightarrow> nat \<Rightarrow> bool" where
  "encodeUrl_keeps legacy n =
     (if legacy
      then (n = 0x21 \<or> (0x25 \<le> n \<and> n \<le> 0x3B) \<or> n = 0x3D \<or> (0x3F \<le> n \<and> n \<le> 0x5B)
            \<or> n = 0x5D \<or> n = 0x5F \<or> (0x61 \<le> n \<and> n \<le> 0x7A) \<or> n = 0x7E)
      else (n = 0x21 \<or> (0x23 \<le> n \<and> n \<le> 0x3B) \<or> n = 0x3D \<or> (0x3F \<le> n \<and> n \<le> 0x5F)
            \<or> (0x61 \<le> n \<and> n \<le> 0x7A) \<or> n = 0x7C \<or> n = 0x7E))"

text \<open>
  \<^verbatim>\<open>encodeUrl\<close>: every stretch the pattern matches is replaced by its \<^verbatim>\<open>encodeURI\<close>.
  The pattern matches a character outside the class, and a percent sign together with
  what follows it when that is not two hexadecimal digits: a character that is no such
  digit, a digit and then a character that is none, or the end of the string.
\<close>

fun encodeUrl :: "bool \<Rightarrow> string \<Rightarrow> string" where
  "encodeUrl legacy [] = []"
| "encodeUrl legacy [c] =
     (if c = CHR ''%'' then ''%25''
      else if encodeUrl_keeps legacy (of_char c) then [c] else encodeURI_char c)"
| "encodeUrl legacy (c # c1 # cs) =
     (if c = CHR ''%'' then
        (if \<not> hex_digit c1 then ''%25'' @ encodeURI_char c1 @ encodeUrl legacy cs
         else (case cs of
                 [] \<Rightarrow> c # encodeUrl legacy (c1 # cs)
               | c2 # cs2 \<Rightarrow>
                   if hex_digit c2 then c # encodeUrl legacy (c1 # cs)
                   else ''%25'' @ [c1] @ encodeURI_char c2 @ encodeUrl legacy cs2))
      else if encodeUrl_keeps legacy (of_char c) then c # encodeUrl legacy (c1 # cs)
      else encodeURI_char c @ encodeUrl legacy (c1 # cs))"

text \<open>
  \<^verbatim>\<open>res.location(url)\<close> as \<^verbatim>\<open>res.redirect\<close> calls it: an undefined argument is turned
  into the string \<^verbatim>\<open>undefined\<close>, and the result of \<^verbatim>\<open>encodeUrl\<close> is the header.
\<close>

definition location :: "env \<Rightarrow> string option \<Rightarrow> string" where
  "location e u =
     (let loc = (case u of None \<Rightarrow> ''undefined'' | Some s \<Rightarrow> s);
          loc = (if loc = ''back'' then (case back_alias e of None \<Rightarrow> loc | Some r \<Rightarrow> r) else loc)
      in encodeUrl (legacy_encode e) loc)"

section \<open>Routes\<close>

text \<open>\<^verbatim>\<open>GET /api/images\<close>\<close>

definition with_url :: "image \<Rightarrow> listed" where
  "with_url im = image.extend im (listed.fields (img_path im))"

definition get_images :: "env \<Rightarrow> world \<Rightarrow> response \<times> world" where
  "get_images e w =
     (case find_sorted e (docs w) of
        Inl er \<Rightarrow>
          (Json 500 (ErrorBody ''Failed to fetch images''), console_error ''Fetch error:'' er w)
      | Inr found \<Rightarrow> (Json 200 (ImagesBody (map with_url found)), w))"

text \<open>\<^verbatim>\<open>GET /api/download/:id\<close>\<close>

definition download_by_id :: "env \<Rightarrow> string \<Rightarrow> world \<Rightarrow> response \<times> world" where
  "download_by_id e i w =
     (case findById e (docs w) i of
        Inl er \<Rightarrow>
          (Json 500 (ErrorBody ''Failed to download image''),
           console_error ''Download error:'' er w)
      | Inr None \<Rightarrow> (Json 404 (ErrorBody ''Image not found''), w)
      | Inr (Some im) \<Rightarrow> (Redirect 302 (location e (img_path im)), w))"

text \<open>\<^verbatim>\<open>DELETE /api/images/:id\<close>\<close>

definition delete_image :: "env \<Rightarrow> string \<Rightarrow> world \<Rightarrow> response \<times> world" where
  "delete_image e i w =
     (case findById e (docs w) i of
        Inl er \<Rightarrow>
          (Json 500 (ErrorBody ''Failed to delete image''), console_error ''Delete error:'' er w)
      | Inr None \<Rightarrow> (Json 404 (ErrorBody ''Image not found''), w)
      | Inr (Some im) \<Rightarrow>
          (let w1 = (if truthy (publicId_of im)
                     then (case publicId_of im of None \<Rightarrow> w | Some publicId \<Rightarrow> destroy e publicId w)
                     else w)
           in case findByIdAndDelete e i w1 of
                Inl er \<Rightarrow>
                  (Json 500 (ErrorBody ''Failed to delete image''),
                   console_error ''Delete error:'' er w1)
              | Inr w2 \<Rightarrow> (Json 200 (MessageBody ''Image deleted successfully''), w2)))"

section \<open>Upload pipeline\<close>

text \<open>
  One file part of a multipart request as Multer sees it before storing it, together with
  the number of bytes its stream carries.
\<close>

record part =
  part_fieldname :: string
  part_originalname :: string
  part_mimetype :: string
  part_bytes :: nat

text \<open>What the Cloudinary storage engine adds to the file once it is stored.\<close>

record stored =
  stored_path :: "string option"
  stored_filename :: string
  stored_size :: nat
  stored_public_id :: "string option"

text \<open>An entry of \<^verbatim>\<open>req.files\<close>.\<close>

record upfile =
  file_originalname :: string
  file_mimetype :: string
  file_filename :: string
  file_path :: "string option"
  file_size :: nat
  file_public_id :: "string option"

text \<open>
  The outside world during one upload request: the outcome of storing each part at
  Cloudinary, the identifier and the time the new documents get, and the outcome of each
  \<^verbatim>\<open>save\<close>, by position in \<^verbatim>\<open>req.files\<close>.
\<close>

record upload_env =
  cloud_upload :: "part \<Rightarrow> js_error + stored"
  new_id :: "nat \<Rightarrow> string"
  now :: int
  save_fault :: "nat \<Rightarrow> js_error option"

text \<open>
  \<^verbatim>\<open>path.extname\<close> of Node with \<^verbatim>\<open>/\<close> as the separator: trailing separators are
  ignored, the extension runs from the last dot of the last component to its end, and it is
  empty when that component has no dot, starts with its only dot, or is \<^verbatim>\<open>..\<close>.
\<close>

definition path_extname :: "string \<Rightarrow> string" where
  "path_extname p =
     (let trimmed = rev (dropWhile (\<lambda>c. c = CHR ''/'') (rev p));
          base = last (split_on CHR ''/'' trimmed);
          stem = rev (dropWhile (\<lambda>c. c \<noteq> CHR ''.'') (rev base))
      in if CHR ''.'' \<in> set base \<and> length stem \<noteq> 1 \<and> base \<noteq> ''..''
         then drop (length stem - 1) base
         else [])"

text \<open>
  \<^verbatim>\<open>/jpeg|jpg|png|gif|webp/.test(s)\<close>: the pattern has no anchors, so it succeeds when
  one of the five words occurs anywhere in \<^verbatim>\<open>s\<close>.
\<close>

fun starts_with :: "string \<Rightarrow> string \<Rightarrow> bool" where
  "starts_with [] s = True"
| "starts_with (a # as) [] = False"
| "starts_with (a # as) (b # bs) = (a = b \<and> starts_with as bs)"

fun contains :: "string \<Rightarrow> string \<Rightarrow> bool" where
  "contains word [] = (word = [])"
| "contains word (c # cs) = (starts_with word (c # cs) \<or> contains word cs)"

definition allowedTypes_test :: "string \<Rightarrow> bool" where
  "allowedTypes_test s =
     (contains ''jpeg'' s \<or> contains ''jpg'' s \<or> contains ''png'' s
      \<or> contains ''gif'' s \<or> contains ''webp'' s)"

text \<open>The \<^verbatim>\<open>fileFilter\<close> option: the result is what it passes to its callback.\<close>

definition fileFilter :: "part \<Rightarrow> js_error + bool" where
  "fileFilter file =
     (let extname = allowedTypes_test (toLowerCase (path_extname (part_originalname file)));
          mimetype = allowedTypes_test (part_mimetype file)
      in if mimetype \<and> extname then Inr True
         else Inl (Error ''Only image files are allowed!''))"

text \<open>\<^verbatim>\<open>limits.fileSize\<close>\<close>

definition fileSize :: nat where
  "fileSize = 10 * 1024 * 1024"

definition mk_file :: "part \<Rightarrow> stored \<Rightarrow> upfile" where
  "mk_file p info =
     \<lparr>file_originalname = part_originalname p, file_mimetype = part_mimetype p,
      file_filename = stored_filename info, file_path = stored_path info,
      file_size = stored_size info, file_public_id = stored_public_id info\<rparr>"

text \<open>
  \<^verbatim>\<open>upload.array("images", 10)\<close>: Multer takes the parts in order. A part under another
  field name, or one more than the allowed count, aborts the request; then the file filter
  runs; only a part it accepts is streamed to the storage engine, where a stream longer
  than \<^verbatim>\<open>limits.fileSize\<close> aborts with \<^verbatim>\<open>LIMIT_FILE_SIZE\<close>. The first abort ends the
  request and the route handler is not called.
\<close>

fun handle_parts ::
  "upload_env \<Rightarrow> nat \<Rightarrow> part list \<Rightarrow> world \<Rightarrow> (js_error + upfile list) \<times> world" where
  "handle_parts e filesLeft [] w = (Inr [], w)"
| "handle_parts e filesLeft (p # ps) w =
     (if part_fieldname p \<noteq> ''images'' \<or> filesLeft = 0
      then (Inl (MulterError ''LIMIT_UNEXPECTED_FILE'' ''Unexpected field''), w)
      else (case fileFilter p of
              Inl er \<Rightarrow> (Inl er, w)
            | Inr False \<Rightarrow> handle_parts e (filesLeft - 1) ps w
            | Inr True \<Rightarrow>
                (let w1 = w\<lparr>media_uploads := media_uploads w @ [part_originalname p]\<rparr> in
                 if fileSize < part_bytes p
                 then (Inl (MulterError ''LIMIT_FILE_SIZE'' ''File too large''), w1)
                 else (case cloud_upload e p of
                         Inl er \<Rightarrow> (Inl er, w1)
                       | Inr info \<Rightarrow>
                           (case handle_parts e (filesLeft - 1) ps w1 of
                              (Inl er, w2) \<Rightarrow> (Inl er, w2)
                            | (Inr fs, w2) \<Rightarrow> (Inr (mk_file p info # fs), w2))))))"

text \<open>The fallback error middleware (lines 196 to 203).\<close>

definition error_middleware :: "js_error \<Rightarrow> response" where
  "error_middleware error =
     (case error of
        MulterError code m \<Rightarrow>
          (if code = ''LIMIT_FILE_SIZE'' then Json 400 (ErrorBody ''File too large'')
           else Json 500 (ErrorBody (message error)))
      | Error m \<Rightarrow> Json 500 (ErrorBody (message error)))"

text \<open>The handler of \<^verbatim>\<open>POST /api/upload\<close>; \<^verbatim>\<open>req.files\<close> may be undefined.\<close>

definition newImage :: "upload_env \<Rightarrow> nat \<Rightarrow> upfile \<Rightarrow> image" where
  "newImage e k file =
     \<lparr>img_id = new_id e k, img_filename = file_filename file,
      img_originalName = file_originalname file, img_mimetype = file_mimetype file,
      img_size = file_size file, img_path = file_path file,
      img_public_id = file_public_id file, img_uploadDate = now e\<rparr>"

definition upload_images :: "upload_env \<Rightarrow> upfile list option \<Rightarrow> world \<Rightarrow> response \<times> world" where
  "upload_images e files w =
     (case files of
        None \<Rightarrow>
          (Json 500 (ErrorBody ''Failed to upload images''),
           console_error ''Upload error:''
             (Error ''Cannot read properties of undefined (reading 'map')'') w)
      | Some fs \<Rightarrow>
          (let made = map (\<lambda>(k, file). (k, newImage e k file)) (enumerate 0 fs);
               savedImages = map snd (filter (\<lambda>(k, im). save_fault e k = None) made);
               w1 = w\<lparr>docs := docs w @ savedImages\<rparr>
           in case List.map_filter (\<lambda>(k, im). save_fault e k) made of
                [] \<Rightarrow> (Json 201 (UploadBody ''Images uploaded successfully'' savedImages), w1)
              | er # ers \<Rightarrow>
                  (Json 500 (ErrorBody ''Failed to upload images''),
                   console_error ''Upload error:'' er w1)))"

text \<open>
  The whole route: a request that is not multipart passes through Multer untouched
  (\<^verbatim>\<open>None\<close>); otherwise its file parts go through \<^verbatim>\<open>upload.array\<close>, and an abort
  reaches the error middleware instead of the handler.
\<close>

definition post_upload :: "upload_env \<Rightarrow> part list option \<Rightarrow> world \<Rightarrow> response \<times> world" where
  "post_upload e req w =
     (case req of
        None \<Rightarrow> upload_images e None w
      | Some ps \<Rightarrow>
          (case handle_parts e 10 ps w of
             (Inl er, w1) \<Rightarrow> (error_middleware er, w1)
           | (Inr fs, w1) \<Rightarrow> upload_images e (Some fs) w1))"

section \<open>Gallery client\<close>

text \<open>The React state of \<^verbatim>\<open>GalleryApp\<close> and the outcome of one \<^verbatim>\<open>fetch\<close>.\<close>

record client =
  images :: "listed list"
  selectedImage :: "listed option"
  isUploading :: bool
  isLoading :: bool
  error :: "string option"

datatype fetch_result = NetworkError | Response bool

text \<open>
  \<^verbatim>\<open>deleteImage(id)\<close>, from the state in which it is called to the state after its
  updates are applied; \<^verbatim>\<open>Response ok\<close> carries \<^verbatim>\<open>response.ok\<close>.
\<close>

definition deleteImage :: "fetch_result \<Rightarrow> string \<Rightarrow> client \<Rightarrow> client" where
  "deleteImage r i c =
     (let c1 = c\<lparr>error := None\<rparr> in
      case r of
        Response True \<Rightarrow>
          (let c2 = c1\<lparr>images := filter (\<lambda>img. img_id img \<noteq> i) (images c1)\<rparr> in
           case selectedImage c of
             None \<Rightarrow> c2
           | Some sel \<Rightarrow> if img_id sel = i then c2\<lparr>selectedImage := None\<rparr> else c2)
      | _ \<Rightarrow> c1\<lparr>error := Some ''Failed to delete image. Please try again.''\<rparr>)"

section \<open>Vocabulary of the specification\<close>

text \<open>
  The type check as the specification words it: the lowercased extension and the declared
  MIME type are each one of the five names, the extension with or without its dot and the
  MIME type with or without the \<^verbatim>\<open>image/\<close> prefix.
\<close>

definition allowed_names :: "string list" where
  "allowed_names = [''jpeg'', ''jpg'', ''png'', ''gif'', ''webp'']"

definition spec_type_check :: "part \<Rightarrow> bool" where
  "spec_type_check file =
     (toLowerCase (path_extname (part_originalname file))
        \<in> set (allowed_names @ map (\<lambda>t. CHR ''.'' # t) allowed_names)
      \<and> part_mimetype file \<in> set (allowed_names @ map (\<lambda>t. ''image/'' @ t) allowed_names))"

text \<open>
  The deletion handle as the specification words it: the last segment of the path between
  slashes, without its extension, the extension being what follows the last dot.
\<close>

definition last_segment :: "string \<Rightarrow> string" where
  "last_segment p = last (split_on CHR ''/'' p)"

definition strip_extension :: "string \<Rightarrow> string" where
  "strip_extension s =
     (if CHR ''.'' \<in> set s then rev (tl (dropWhile (\<lambda>c. c \<noteq> CHR ''.'') (rev s))) else s)"

definition dots :: "string \<Rightarrow> nat" where
  "dots s = length (filter (\<lambda>c. c = CHR ''.'') s)"


text \<open>
  A path that URL encoding leaves as it is, in the specification's sense of a resolvable
  URL: letters, digits and the punctuation \<^verbatim>\<open>! # $ & ' ( ) * + , - . / : ; = ? @ [ ] _ ~\<close>,
  and percent signs only in front of two hexadecimal digits.
\<close>

definition url_char :: "char \<Rightarrow> bool" where
  "url_char c =
     (let n = (of_char c :: nat) in
      n = 0x21 \<or> n = 0x23 \<or> n = 0x24 \<or> (0x26 \<le> n \<and> n \<le> 0x3B) \<or> n = 0x3D
      \<or> (0x3F \<le> n \<and> n \<le> 0x5B) \<or> n = 0x5D \<or> n = 0x5F \<or> (0x61 \<le> n \<and> n \<le> 0x7A)
      \<or> n = 0x7E)"

fun url_clean :: "string \<Rightarrow> bool" where
  "url_clean [] = True"
| "url_clean [c] = url_char c"
| "url_clean [c, c1] = (url_char c \<and> url_char c1)"
| "url_clean (c # c1 # c2 # cs) =
     (if c = CHR ''%'' then hex_digit c1 \<and> hex_digit c2 \<and> url_clean cs
      else url_char c \<and> url_clean (c1 # c2 # cs))"

section \<open>Sample data\<close>

definition calm :: env where
  "calm = \<lparr>find_fault = None, delete_fault = None, destroy_fault = None,
            scan_rank = (\<lambda>d. 0), short_ids = (\<lambda>s. False), legacy_encode = False,
            back_alias = None\<rparr>"

definition cloud_down :: env where
  "cloud_down = calm\<lparr>destroy_fault := Some (Error ''cloudinary unreachable'')\<rparr>"

definition backwards :: env where
  "backwards = calm\<lparr>scan_rank := (\<lambda>d. if img_id d = ''65a0000000000000000000f7'' then 0 else 1)\<rparr>"

definition photo :: image where
  "photo = \<lparr>img_id = ''65a0000000000000000000a1'', img_filename = ''uploads/17-42'',
             img_originalName = ''cat.png'', img_mimetype = ''image/png'', img_size = 2048,
             img_path = Some ''https://cdn.example/uploads/17-42.png'',
             img_public_id = Some ''uploads/17-42'', img_uploadDate = 100\<rparr>"

definition legacy :: image where
  "legacy = \<lparr>img_id = ''65a0000000000000000000b2'', img_filename = ''old'',
              img_originalName = ''old.png'', img_mimetype = ''image/png'', img_size = 512,
              img_path = Some ''https://cdn.example/old.png'',
              img_public_id = None, img_uploadDate = 200\<rparr>"

definition dotted :: image where
  "dotted = \<lparr>img_id = ''65a0000000000000000000c3'', img_filename = ''photo.v2'',
              img_originalName = ''photo.v2.png'', img_mimetype = ''image/png'', img_size = 512,
              img_path = Some ''https://cdn.example/photo.v2.png'',
              img_public_id = None, img_uploadDate = 300\<rparr>"

definition hidden :: image where
  "hidden = \<lparr>img_id = ''65a0000000000000000000d4'', img_filename = [],
              img_originalName = ''.png'', img_mimetype = ''image/png'', img_size = 512,
              img_path = Some ''https://cdn.example/.png'',
              img_public_id = None, img_uploadDate = 400\<rparr>"

definition blank :: image where
  "blank = \<lparr>img_id = ''65a0000000000000000000e5'', img_filename = ''pic'',
              img_originalName = ''pic.png'', img_mimetype = ''image/png'', img_size = 512,
              img_path = Some ''https://cdn.example/pic.png'',
              img_public_id = Some [], img_uploadDate = 500\<rparr>"

definition gallery :: world where
  "gallery = \<lparr>docs = [photo, legacy, dotted, hidden, blank], destroy_calls = [],
               media_uploads = [], console = []\<rparr>"

text \<open>Two documents saved in the same millisecond, and one whose path has a space.\<close>

definition twin_a :: image where
  "twin_a = \<lparr>img_id = ''65a0000000000000000000f6'', img_filename = ''one'',
              img_originalName = ''one.png'', img_mimetype = ''image/png'', img_size = 512,
              img_path = Some ''https://cdn.example/one.png'',
              img_public_id = Some ''one'', img_uploadDate = 700\<rparr>"

definition twin_b :: image where
  "twin_b = \<lparr>img_id = ''65a0000000000000000000f7'', img_filename = ''two'',
              img_originalName = ''two.png'', img_mimetype = ''image/png'', img_size = 512,
              img_path = Some ''https://cdn.example/two.png'',
              img_public_id = Some ''two'', img_uploadDate = 700\<rparr>"

definition spaced :: image where
  "spaced = \<lparr>img_id = ''65a0000000000000000000f8'', img_filename = ''my cat'',
              img_originalName = ''my cat.png'', img_mimetype = ''image/png'', img_size = 512,
              img_path = Some ''https://cdn.example/my cat.png'',
              img_public_id = Some ''my cat'', img_uploadDate = 800\<rparr>"

definition album :: world where
  "album = \<lparr>docs = [twin_a, twin_b, spaced], destroy_calls = [],
             media_uploads = [], console = []\<rparr>"

definition quiet :: upload_env where
  "quiet =
     \<lparr>cloud_upload = (\<lambda>p. Inr \<lparr>stored_path = Some (''https://cdn.example/'' @ part_originalname p),
                                 stored_filename = part_originalname p,
                                 stored_size = part_bytes p, stored_public_id = None\<rparr>),
      new_id = (\<lambda>k. replicate (Suc k) CHR ''n''), now = 1000, save_fault = (\<lambda>k. None)\<rparr>"




definition sneaky :: part where
  "sneaky = \<lparr>part_fieldname = ''images'', part_originalname = ''payload.jpgx'',
              part_mimetype = ''text/x-png-notes'', part_bytes = 10\<rparr>"

definition viewer :: client where
  "viewer = \<lparr>images = [with_url photo, with_url legacy], selectedImage = Some (with_url photo),
              isUploading = False, isLoading = False, error = None\<rparr>"

section \<open>Facts about the helpers\<close>

lemma split_on_nonempty: "split_on c s \<noteq> []"
  by (induction s) (auto split: list.splits)

lemma hd_split_on: "hd (split_on c s) = takeWhile (\<lambda>x. x \<noteq> c) s"
  by (induction s) (auto split: list.splits simp: split_on_nonempty)

lemma find_distinct_key:
  "distinct (map f xs) \<Longrightarrow> x \<in> set xs \<Longrightarrow> find (\<lambda>d. f d = f x) xs = Some x"
  by (induction xs) (auto simp: rev_image_eqI)

lemma remove_first_distinct_key:
  "distinct (map f xs) \<Longrightarrow> remove_first (\<lambda>d. f d = k) xs = filter (\<lambda>d. f d \<noteq> k) xs"
proof (induction xs)
  case Nil
  then show ?case by simp
next
  case (Cons x xs)
  have "f x = k \<Longrightarrow> filter (\<lambda>d. f d \<noteq> k) xs = xs"
    using Cons.prems by (intro filter_True) (auto simp: image_iff)
  with Cons show ?case by auto
qed

lemma filter_distinct_key:
  "distinct (map f xs) \<Longrightarrow> k \<in> set xs \<Longrightarrow> filter (\<lambda>x. f k = f x) xs = [k]"
proof (induction xs)
  case Nil
  then show ?case by simp
next
  case (Cons x xs)
  show ?case
  proof (cases "k = x")
    case True
    have "filter (\<lambda>y. f x = f y) xs = []"
      using Cons.prems(1) by (auto simp: filter_empty_conv image_iff)
    with True show ?thesis by simp
  next
    case False
    with Cons.prems have "k \<in> set xs" "f k \<noteq> f x" by (auto simp: image_iff)
    with Cons show ?thesis by simp
  qed
qed

text \<open>When no two keys are equal, the order in which a sort finds its input is lost.\<close>

lemma sort_key_distinct_unique:
  assumes "distinct (map f xs)"
  shows "sort_key f (sort_key r xs) = sort_key f xs"
proof -
  let ?ys = "sort_key f (sort_key r xs)"
  have m: "mset ?ys = mset xs" by simp
  have d: "distinct (map f ?ys)"
    using assms by (metis m distinct_map mset_eq_setD mset_map mset_eq_imp_distinct_iff)
  show ?thesis
  proof (rule properties_for_sort_key [symmetric])
    show "mset ?ys = mset xs" by (rule m)
    show "sorted (map f ?ys)" by (rule sorted_sort_key)
    fix k assume k: "k \<in> set ?ys"
    then have kx: "k \<in> set xs" by simp
    show "filter (\<lambda>x. f k = f x) ?ys = filter (\<lambda>x. f k = f x) xs"
      using filter_distinct_key [OF d k] filter_distinct_key [OF assms kx] by simp
  qed
qed

lemma truncate_with_url: "image.truncate (with_url im) = im"
  by (simp add: with_url_def image.defs listed.defs)

lemma url_with_url: "url (with_url im) = img_path (with_url im)"
  by (simp add: with_url_def image.defs listed.defs)

lemma date_with_url: "img_uploadDate (with_url im) = img_uploadDate im"
  by (simp add: with_url_def image.defs listed.defs)

lemma id_with_url: "img_id (with_url im) = img_id im"
  by (simp add: with_url_def image.defs listed.defs)

lemma with_url_inject: "with_url a = with_url b \<Longrightarrow> a = b"
  by (metis truncate_with_url)

lemma castObjectId_well_formed: "is_object_id i \<Longrightarrow> castObjectId e i = Some (toLowerCase i)"
  by (simp add: castObjectId_def)

lemma castObjectId_malformed:
  "\<not> is_object_id i \<Longrightarrow> length i \<noteq> 12 \<Longrightarrow> castObjectId e i = None"
  by (simp add: castObjectId_def)

lemma findById_found:
  assumes "find_fault e = None" and "distinct (map img_id ds)"
    and "im \<in> set ds" and "castObjectId e i = Some (img_id im)"
  shows "findById e ds i = Inr (Some im)"
  using find_distinct_key [OF assms(2) assms(3)] assms(1,4) by (simp add: findById_def)

lemma findById_unmatched:
  assumes "find_fault e = None" and "is_object_id i"
    and "\<forall>d \<in> set ds. img_id d \<noteq> toLowerCase i"
  shows "findById e ds i = Inr None"
proof -
  have "find (\<lambda>d. img_id d = toLowerCase i) ds = None"
    using assms(3) by (simp add: find_None_iff)
  then show ?thesis
    using assms(1,2) by (simp add: findById_def castObjectId_well_formed)
qed

lemma docs_destroy: "docs (destroy e p w) = docs w"
  by (simp add: destroy_def console_error_def Let_def split: option.splits)

lemma console_destroy_fault:
  "destroy_fault e = Some er \<Longrightarrow>
     console (destroy e p w) = console w @ [(''Cloudinary deletion error:'', er)]"
  by (simp add: destroy_def console_error_def Let_def)

lemma destroy_calls_console_error: "destroy_calls (console_error l er w) = destroy_calls w"
  by (simp add: console_error_def)

lemma docs_console_error: "docs (console_error l er w) = docs w"
  by (simp add: console_error_def)

lemma destroy_calls_destroy: "destroy_calls (destroy e p w) = destroy_calls w @ [p]"
  by (simp add: destroy_def console_error_def Let_def split: option.splits)

lemma destroy_calls_delete_image:
  assumes "findById e (docs w) i = Inr (Some im)"
  shows "destroy_calls (snd (delete_image e i w)) =
           destroy_calls w
             @ (case publicId_of im of None \<Rightarrow> [] | Some p \<Rightarrow> if p = [] then [] else [p])"
  using assms
  by (auto simp: delete_image_def findByIdAndDelete_def truthy_def Let_def
        destroy_calls_destroy destroy_calls_console_error split: option.splits)

text \<open>The sample identifiers are well formed, and \<^verbatim>\<open>zz\<close> is not.\<close>

lemma sample_ids:
  "castObjectId e ''65a0000000000000000000a1'' = Some ''65a0000000000000000000a1''"
  "castObjectId e ''65a0000000000000000000b2'' = Some ''65a0000000000000000000b2''"
  "castObjectId e ''65a0000000000000000000c3'' = Some ''65a0000000000000000000c3''"
  "castObjectId e ''65a0000000000000000000d4'' = Some ''65a0000000000000000000d4''"
  "castObjectId e ''65a0000000000000000000e5'' = Some ''65a0000000000000000000e5''"
  "castObjectId e ''65a0000000000000000000f8'' = Some ''65a0000000000000000000f8''"
  "castObjectId e ''65a00000000000000000ffff'' = Some ''65a00000000000000000ffff''"
  "castObjectId e ''zz'' = None"
  by (simp_all add: castObjectId_def is_object_id_def hex_digit_def toLowerCase_def
      lower_char_def)

lemma lower_samples: "lower_char CHR ''A'' = CHR ''a''" "lower_char CHR ''B'' = CHR ''b''"
  by code_simp+

lemma sample_upper_id:
  "castObjectId e ''65A0000000000000000000B2'' = Some ''65a0000000000000000000b2''"
  by (simp add: castObjectId_def is_object_id_def hex_digit_def toLowerCase_def lower_samples)
    (simp add: lower_char_def)

lemma sample_well_formed:
  "is_object_id ''65a00000000000000000ffff''"
  "toLowerCase ''65a00000000000000000ffff'' = ''65a00000000000000000ffff''"
  "\<not> is_object_id ''zz''"
  by (simp_all add: is_object_id_def hex_digit_def toLowerCase_def lower_char_def)

lemma sample_envs:
  "find_fault calm = None" "delete_fault calm = None" "destroy_fault calm = None"
  "legacy_encode calm = False" "back_alias calm = None"
  "find_fault cloud_down = None" "delete_fault cloud_down = None"
  "destroy_fault cloud_down = Some (Error ''cloudinary unreachable'')"
  "find_fault backwards = None"
  by (simp_all add: calm_def cloud_down_def backwards_def)

lemma sample_gallery:
  "docs gallery = [photo, legacy, dotted, hidden, blank]" "destroy_calls gallery = []"
  "console gallery = []"
  "distinct (map img_id (docs gallery))"
  "img_id photo = ''65a0000000000000000000a1''" "img_id legacy = ''65a0000000000000000000b2''"
  "img_id dotted = ''65a0000000000000000000c3''" "img_id hidden = ''65a0000000000000000000d4''"
  "img_id blank = ''65a0000000000000000000e5''"
  by (simp_all add: gallery_def photo_def legacy_def dotted_def hidden_def blank_def)

lemma sample_album:
  "docs album = [twin_a, twin_b, spaced]"
  "distinct (map img_id (docs album))"
  "img_id twin_a = ''65a0000000000000000000f6''" "img_id twin_b = ''65a0000000000000000000f7''"
  "img_id spaced = ''65a0000000000000000000f8''"
  "img_uploadDate twin_a = 700" "img_uploadDate twin_b = 700" "img_uploadDate spaced = 800"
  "img_path spaced = Some ''https://cdn.example/my cat.png''"
  by (simp_all add: album_def twin_a_def twin_b_def spaced_def)

section \<open>Deleting an image\<close>

text \<open>
  Claim C1. When the identifier of a \<^verbatim>\<open>DELETE /api/images/:id\<close> request is the
  \<^verbatim>\<open>_id\<close> of a stored document and the two Metadata Store calls resolve, the response is
  200 with the confirmation message and the document is gone from the collection while
  every other document stays, whatever \<^verbatim>\<open>cloudinary.uploader.destroy\<close> does: its outcome
  is a free field of the environment. When a deletion is attempted and rejects, the
  rejection is written to the console.
\<close>

theorem delete_image_found:
  assumes "find_fault e = None" and "delete_fault e = None"
    and "distinct (map img_id (docs w))"
    and "im \<in> set (docs w)" and "castObjectId e i = Some (img_id im)"
  shows "fst (delete_image e i w) = Json 200 (MessageBody ''Image deleted successfully'')
       \<and> docs (snd (delete_image e i w)) = filter (\<lambda>d. img_id d \<noteq> img_id im) (docs w)
       \<and> im \<notin> set (docs (snd (delete_image e i w)))
       \<and> (destroy_fault e = Some er \<and> truthy (publicId_of im) \<longrightarrow>
             (''Cloudinary deletion error:'', er) \<in> set (console (snd (delete_image e i w))))"
proof -
  have f: "findById e (docs w) i = Inr (Some im)"
    using assms(1,3,4,5) by (rule findById_found)
  define w1 where "w1 = (if truthy (publicId_of im)
                     then (case publicId_of im of None \<Rightarrow> w | Some publicId \<Rightarrow> destroy e publicId w)
                     else w)"
  have d1: "docs w1 = docs w"
    by (simp add: w1_def docs_destroy split: option.splits)
  have r: "delete_image e i w =
      (Json 200 (MessageBody ''Image deleted successfully''),
       w1\<lparr>docs := remove_first (\<lambda>d. img_id d = img_id im) (docs w1)\<rparr>)"
    using f assms(2,5) by (simp add: delete_image_def findByIdAndDelete_def w1_def Let_def)
  have c: "destroy_fault e = Some er \<Longrightarrow> truthy (publicId_of im) \<Longrightarrow>
      (''Cloudinary deletion error:'', er) \<in> set (console w1)"
    by (auto simp: w1_def truthy_def console_destroy_fault split: option.splits)
  show ?thesis
    using r d1 c by (auto simp: remove_first_distinct_key [OF assms(3)])
qed

theorem delete_image_found_witness:
  "find_fault cloud_down = None \<and> delete_fault cloud_down = None
   \<and> distinct (map img_id (docs gallery)) \<and> photo \<in> set (docs gallery)
   \<and> castObjectId cloud_down ''65a0000000000000000000a1'' = Some (img_id photo)
   \<and> destroy_fault cloud_down = Some (Error ''cloudinary unreachable'')
   \<and> fst (delete_image cloud_down ''65a0000000000000000000a1'' gallery)
       = Json 200 (MessageBody ''Image deleted successfully'')
   \<and> docs (snd (delete_image cloud_down ''65a0000000000000000000a1'' gallery))
       = [legacy, dotted, hidden, blank]
   \<and> (''Cloudinary deletion error:'', Error ''cloudinary unreachable'')
       \<in> set (console (snd (delete_image cloud_down ''65a0000000000000000000a1'' gallery)))"
proof -
  have h: "find_fault cloud_down = None" "delete_fault cloud_down = None"
      "distinct (map img_id (docs gallery))" "photo \<in> set (docs gallery)"
      "castObjectId cloud_down ''65a0000000000000000000a1'' = Some (img_id photo)"
    by (simp_all add: sample_envs sample_gallery sample_ids)
  have t: "truthy (publicId_of photo)"
    by (simp add: photo_def truthy_def publicId_of_def)
  have k: "filter (\<lambda>d. img_id d \<noteq> img_id photo) (docs gallery) = [legacy, dotted, hidden, blank]"
    by (simp add: sample_gallery)
  show ?thesis
    using h t k sample_envs(8)
      delete_image_found [OF h, of "Error ''cloudinary unreachable''"]
    by simp
qed

text \<open>
  Claim C7, as the code has it. When the identifier of a \<^verbatim>\<open>DELETE /api/images/:id\<close>
  request is a well-formed ObjectId, 24 hexadecimal digits, that no stored document has,
  and the lookup resolves, the response is 404 and the whole state is as before. For
  every identifier that denotes no stored document, well formed or not, the collection is
  untouched and nothing is sent to the Media Store.
\<close>

theorem delete_image_not_found:
  "(find_fault e = None \<and> is_object_id i \<and> (\<forall>d \<in> set (docs w). img_id d \<noteq> toLowerCase i) \<longrightarrow>
      delete_image e i w = (Json 404 (ErrorBody ''Image not found''), w))
   \<and> ((\<forall>d \<in> set (docs w). castObjectId e i \<noteq> Some (img_id d)) \<longrightarrow>
      docs (snd (delete_image e i w)) = docs w
      \<and> destroy_calls (snd (delete_image e i w)) = destroy_calls w)"
proof (rule conjI; rule impI)
  assume "find_fault e = None \<and> is_object_id i \<and> (\<forall>d \<in> set (docs w). img_id d \<noteq> toLowerCase i)"
  then have "findById e (docs w) i = Inr None"
    by (intro findById_unmatched) auto
  then show "delete_image e i w = (Json 404 (ErrorBody ''Image not found''), w)"
    by (simp add: delete_image_def)
next
  assume no: "\<forall>d \<in> set (docs w). castObjectId e i \<noteq> Some (img_id d)"
  have "findById e (docs w) i \<noteq> Inr (Some im)" for im
  proof
    assume "findById e (docs w) i = Inr (Some im)"
    then obtain oid where "castObjectId e i = Some oid" "find (\<lambda>d. img_id d = oid) (docs w) = Some im"
      by (auto simp: findById_def split: option.splits)
    then have "im \<in> set (docs w)" "castObjectId e i = Some (img_id im)"
      by (auto simp: find_Some_iff)
    with no show False by blast
  qed
  then have "(\<exists>er. findById e (docs w) i = Inl er) \<or> findById e (docs w) i = Inr None"
    by (cases "findById e (docs w) i"; simp) (metis option.exhaust)
  then show "docs (snd (delete_image e i w)) = docs w
      \<and> destroy_calls (snd (delete_image e i w)) = destroy_calls w"
    by (auto simp: delete_image_def docs_console_error destroy_calls_console_error)
qed

theorem delete_image_not_found_witness:
  "find_fault calm = None \<and> is_object_id ''65a00000000000000000ffff''
   \<and> toLowerCase ''65a00000000000000000ffff'' \<notin> set (map img_id (docs gallery))
   \<and> delete_image calm ''65a00000000000000000ffff'' gallery
       = (Json 404 (ErrorBody ''Image not found''), gallery)
   \<and> docs (snd (delete_image calm ''zz'' gallery)) = docs gallery
   \<and> destroy_calls (snd (delete_image calm ''zz'' gallery)) = destroy_calls gallery"
proof -
  have a: "find_fault calm = None" "is_object_id ''65a00000000000000000ffff''"
    by (simp_all add: sample_envs sample_well_formed)
  have b: "\<forall>d \<in> set (docs gallery). img_id d \<noteq> toLowerCase ''65a00000000000000000ffff''"
    by (simp add: sample_gallery sample_well_formed)
  have c: "\<forall>d \<in> set (docs gallery). castObjectId calm ''zz'' \<noteq> Some (img_id d)"
    by (simp add: sample_ids)
  have n: "toLowerCase ''65a00000000000000000ffff'' \<notin> set (map img_id (docs gallery))"
    by (simp add: sample_gallery sample_well_formed)
  show ?thesis
    using a b c n delete_image_not_found [of calm "''65a00000000000000000ffff''" gallery]
      delete_image_not_found [of calm "''zz''" gallery]
    by blast
qed

text \<open>
  Claim C7 as stated fails: \<^verbatim>\<open>zz\<close> is the identifier of no stored document, yet the
  request is answered 500, because the cast to an ObjectId rejects before any lookup.
\<close>

theorem delete_image_not_found_counterexample:
  "''zz'' \<notin> set (map img_id (docs gallery))
   \<and> delete_image calm ''zz'' gallery
       = (Json 500 (ErrorBody ''Failed to delete image''),
          console_error ''Delete error:'' (CastError ''zz'') gallery)
   \<and> fst (delete_image calm ''zz'' gallery) \<noteq> Json 404 (ErrorBody ''Image not found'')"
  by (simp add: sample_gallery delete_image_def findById_def sample_ids)

section \<open>Listing and downloading\<close>

text \<open>
  Claim C2. For every content of the collection, the empty one included, when the query
  resolves \<^verbatim>\<open>GET /api/images\<close> answers 200 with a list that holds exactly the stored
  documents, newest upload date first, each with a \<^verbatim>\<open>url\<close> equal to its \<^verbatim>\<open>path\<close>;
  the state is unchanged.
\<close>

theorem get_images_contract:
  assumes "find_fault e = None"
  shows "\<exists>L. get_images e w = (Json 200 (ImagesBody L), w)
           \<and> mset (map image.truncate L) = mset (docs w)
           \<and> sorted_wrt (\<lambda>a b. img_uploadDate a \<ge> img_uploadDate b) L
           \<and> (\<forall>r \<in> set L. url r = img_path r)
           \<and> (docs w = [] \<longrightarrow> L = [])"
proof -
  let ?S = "sort_key (\<lambda>d. - img_uploadDate d) (sort_key (scan_rank e) (docs w))"
  let ?L = "map with_url ?S"
  have g: "get_images e w = (Json 200 (ImagesBody ?L), w)"
    using assms by (simp add: get_images_def find_sorted_def)
  have m: "mset (map image.truncate ?L) = mset (docs w)"
    by (simp add: comp_def truncate_with_url)
  have "sorted (map (\<lambda>d. - img_uploadDate d) ?S)"
    by (rule sorted_sort_key)
  then have s: "sorted_wrt (\<lambda>a b. img_uploadDate a \<ge> img_uploadDate b) ?L"
    by (simp add: sorted_wrt_map sorted_map date_with_url)
  have u: "\<forall>r \<in> set ?L. url r = img_path r"
    by (auto simp: url_with_url)
  have n: "docs w = [] \<longrightarrow> ?L = []" by simp
  from g m s u n show ?thesis by blast
qed

theorem get_images_contract_witness:
  "find_fault calm = None
   \<and> get_images calm gallery
       = (Json 200 (ImagesBody [with_url blank, with_url hidden, with_url dotted,
                                with_url legacy, with_url photo]), gallery)
   \<and> get_images calm (gallery\<lparr>docs := []\<rparr>) = (Json 200 (ImagesBody []), gallery\<lparr>docs := []\<rparr>)"
  using get_images_contract [of calm gallery] get_images_contract [of calm "gallery\<lparr>docs := []\<rparr>"]
  by (simp add: get_images_def find_sorted_def calm_def gallery_def photo_def legacy_def
      dotted_def hidden_def blank_def)

text \<open>
  Claim C9, as the code has it. Two \<^verbatim>\<open>GET /api/images\<close> requests in a row, both of
  whose queries resolve, return the same body in the same order when no two stored
  documents have the same upload date, or when MongoDB meets the documents in the same
  order for both queries. The first request leaves the state as it found it.
\<close>

theorem get_images_twice:
  assumes "find_fault e1 = None" and "find_fault e2 = None"
  shows "(distinct (map img_uploadDate (docs w)) \<or> scan_rank e2 = scan_rank e1 \<longrightarrow>
            fst (get_images e2 (snd (get_images e1 w))) = fst (get_images e1 w))
       \<and> snd (get_images e1 w) = w"
proof -
  let ?f = "\<lambda>d. - img_uploadDate d"
  have unchanged: "snd (get_images e1 w) = w"
    using assms(1) by (simp add: get_images_def find_sorted_def)
  have same: "sort_key ?f (sort_key (scan_rank e2) (docs w))
                = sort_key ?f (sort_key (scan_rank e1) (docs w))"
    if "distinct (map img_uploadDate (docs w)) \<or> scan_rank e2 = scan_rank e1"
    using that
  proof
    assume "distinct (map img_uploadDate (docs w))"
    then have "distinct (map ?f (docs w))"
      by (simp add: distinct_map inj_on_def)
    then show ?thesis
      by (simp add: sort_key_distinct_unique)
  next
    assume "scan_rank e2 = scan_rank e1"
    then show ?thesis by simp
  qed
  show ?thesis
    using assms unchanged same by (simp add: get_images_def find_sorted_def)
qed

theorem get_images_twice_witness:
  "find_fault calm = None \<and> find_fault backwards = None
   \<and> distinct (map img_uploadDate (docs gallery))
   \<and> fst (get_images backwards (snd (get_images calm gallery))) = fst (get_images calm gallery)
   \<and> snd (get_images calm gallery) = gallery"
proof -
  have h: "find_fault calm = None" "find_fault backwards = None"
    by (simp_all add: sample_envs)
  have d: "distinct (map img_uploadDate (docs gallery))"
    by (simp add: gallery_def photo_def legacy_def dotted_def hidden_def blank_def)
  show ?thesis
    using h d get_images_twice [OF h, of gallery] by blast
qed

text \<open>
  Claim C9 as stated fails: two documents of the album were saved in the same
  millisecond, the sort key is the upload date alone, and a second query that meets them
  in the other order returns them in the other order although nothing was changed in
  between.
\<close>

theorem get_images_twice_counterexample:
  "find_fault calm = None \<and> find_fault backwards = None
   \<and> snd (get_images calm album) = album
   \<and> fst (get_images calm album)
       = Json 200 (ImagesBody [with_url spaced, with_url twin_a, with_url twin_b])
   \<and> fst (get_images backwards (snd (get_images calm album)))
       = Json 200 (ImagesBody [with_url spaced, with_url twin_b, with_url twin_a])
   \<and> fst (get_images backwards (snd (get_images calm album))) \<noteq> fst (get_images calm album)"
proof -
  have ne: "with_url twin_b \<noteq> with_url twin_a"
    using with_url_inject [of twin_b twin_a] by (auto simp: twin_a_def twin_b_def)
  have a: "get_images calm album
      = (Json 200 (ImagesBody [with_url spaced, with_url twin_a, with_url twin_b]), album)"
    by (simp add: get_images_def find_sorted_def calm_def sample_album)
  have b: "get_images backwards album
      = (Json 200 (ImagesBody [with_url spaced, with_url twin_b, with_url twin_a]), album)"
    by (simp add: get_images_def find_sorted_def calm_def backwards_def sample_album)
  show ?thesis
    using a b ne by (simp add: sample_envs)
qed

section \<open>The redirect of a download\<close>

lemma hex_digit_url_char: "hex_digit c \<Longrightarrow> url_char c"
  by (auto simp: hex_digit_def url_char_def)

lemma url_char_not_percent: "url_char c \<Longrightarrow> c \<noteq> CHR ''%''"
  by (auto simp: url_char_def)

lemma url_char_keeps_new: "url_char c \<Longrightarrow> encodeUrl_keeps False (of_char c)"
  unfolding url_char_def encodeUrl_keeps_def Let_def if_False
  by presburger

lemma url_char_keeps_old:
  "url_char c \<Longrightarrow> encodeUrl_keeps True (of_char c) \<or> encodeURI_keeps (of_char c)"
  unfolding url_char_def encodeUrl_keeps_def encodeURI_keeps_def Let_def if_True
  by presburger

lemma url_char_kept:
  assumes "url_char c"
  shows "(if encodeUrl_keeps lg (of_char c) then [c] else encodeURI_char c) = [c]"
  using url_char_keeps_new [OF assms] url_char_keeps_old [OF assms]
  by (cases lg) (auto simp: encodeURI_char_def Let_def)

lemma encodeUrl_single:
  assumes "url_char c"
  shows "encodeUrl lg [c] = [c]"
  using url_char_kept [OF assms, of lg] url_char_not_percent [OF assms]
  by (cases "encodeUrl_keeps lg (of_char c)") simp_all

lemma encodeUrl_step:
  assumes "url_char c"
  shows "encodeUrl lg (c # c1 # cs) = c # encodeUrl lg (c1 # cs)"
  using url_char_kept [OF assms, of lg] url_char_not_percent [OF assms]
  by (cases "encodeUrl_keeps lg (of_char c)") simp_all

text \<open>No release of the encoder changes a clean path.\<close>

lemma encodeUrl_clean: "url_clean s \<Longrightarrow> encodeUrl lg s = s"
proof (induction s rule: url_clean.induct)
  case 1
  then show ?case by simp
next
  case (2 c)
  then show ?case by (simp add: encodeUrl_single del: encodeUrl.simps(2,3))
next
  case (3 c c1)
  then show ?case by (simp add: encodeUrl_step encodeUrl_single del: encodeUrl.simps(2,3))
next
  case (4 c c1 c2 cs)
  show ?case
  proof (cases "c = CHR ''%''")
    case True
    with 4 have h: "hex_digit c1" "hex_digit c2" and cl: "url_clean cs" by simp_all
    have a: "encodeUrl lg (c # c1 # c2 # cs) = c # encodeUrl lg (c1 # c2 # cs)"
      using True h by simp
    have b: "encodeUrl lg (c1 # c2 # cs) = c1 # encodeUrl lg (c2 # cs)"
      using h(1) by (simp add: encodeUrl_step hex_digit_url_char del: encodeUrl.simps(2,3))
    have c: "encodeUrl lg (c2 # cs) = c2 # encodeUrl lg cs"
    proof (cases cs)
      case Nil
      then show ?thesis
        using h(2) by (simp add: encodeUrl_single hex_digit_url_char del: encodeUrl.simps(2,3))
    next
      case (Cons x xs)
      then show ?thesis
        using h(2) by (simp add: encodeUrl_step hex_digit_url_char del: encodeUrl.simps(2,3))
    qed
    show ?thesis
      using a b c 4(1) True h cl by simp
  next
    case False
    with 4 have u: "url_char c" and cl: "url_clean (c1 # c2 # cs)" by simp_all
    show ?thesis
      using 4(2) [OF False cl] u by (simp add: encodeUrl_step del: encodeUrl.simps(2,3))
  qed
qed

lemma location_clean: "url_clean p \<Longrightarrow> p \<noteq> ''back'' \<Longrightarrow> location e (Some p) = p"
  by (simp add: location_def encodeUrl_clean)

text \<open>
  Claim C6, as the code has it. For \<^verbatim>\<open>GET /api/download/:id\<close>, when the lookup
  resolves: if the identifier is the \<^verbatim>\<open>_id\<close> of a stored document, the response is a
  redirect whose target is the document's \<^verbatim>\<open>path\<close> as \<^verbatim>\<open>res.redirect\<close> encodes
  it, and that is exactly the stored \<^verbatim>\<open>path\<close> when the path is a clean URL other than
  the word \<^verbatim>\<open>back\<close>; if the identifier is a well-formed ObjectId that no stored
  document has, the response is 404 with the body "Image not found".
\<close>

theorem download_by_id_contract:
  assumes "find_fault e = None" and "distinct (map img_id (docs w))"
  shows "(im \<in> set (docs w) \<and> castObjectId e i = Some (img_id im) \<longrightarrow>
            download_by_id e i w = (Redirect 302 (location e (img_path im)), w))
       \<and> (im \<in> set (docs w) \<and> castObjectId e i = Some (img_id im)
            \<and> img_path im = Some p \<and> url_clean p \<and> p \<noteq> ''back'' \<longrightarrow>
            download_by_id e i w = (Redirect 302 p, w))
       \<and> (is_object_id i \<and> (\<forall>d \<in> set (docs w). img_id d \<noteq> toLowerCase i) \<longrightarrow>
            download_by_id e i w = (Json 404 (ErrorBody ''Image not found''), w))"
proof -
  have found: "download_by_id e i w = (Redirect 302 (location e (img_path im)), w)"
    if "im \<in> set (docs w)" "castObjectId e i = Some (img_id im)"
    using findById_found [OF assms that] by (simp add: download_by_id_def)
  have missing: "download_by_id e i w = (Json 404 (ErrorBody ''Image not found''), w)"
    if "is_object_id i" "\<forall>d \<in> set (docs w). img_id d \<noteq> toLowerCase i"
    using findById_unmatched [OF assms(1) that] by (simp add: download_by_id_def)
  show ?thesis
    using found missing location_clean [of p e] by auto
qed

theorem download_by_id_contract_witness:
  "find_fault calm = None \<and> distinct (map img_id (docs gallery))
   \<and> legacy \<in> set (docs gallery)
   \<and> castObjectId calm ''65A0000000000000000000B2'' = Some (img_id legacy)
   \<and> img_path legacy = Some ''https://cdn.example/old.png''
   \<and> url_clean ''https://cdn.example/old.png''
   \<and> download_by_id calm ''65A0000000000000000000B2'' gallery
       = (Redirect 302 ''https://cdn.example/old.png'', gallery)
   \<and> is_object_id ''65a00000000000000000ffff''
   \<and> toLowerCase ''65a00000000000000000ffff'' \<notin> set (map img_id (docs gallery))
   \<and> download_by_id calm ''65a00000000000000000ffff'' gallery
       = (Json 404 (ErrorBody ''Image not found''), gallery)"
proof -
  have h: "find_fault calm = None" "distinct (map img_id (docs gallery))"
    by (simp_all add: sample_envs sample_gallery)
  have a: "legacy \<in> set (docs gallery)"
      "castObjectId calm ''65A0000000000000000000B2'' = Some (img_id legacy)"
      "img_path legacy = Some ''https://cdn.example/old.png''"
    by (simp_all add: sample_gallery sample_upper_id) (simp add: legacy_def)
  have c: "url_clean ''https://cdn.example/old.png''" "''https://cdn.example/old.png'' \<noteq> ''back''"
    by (simp_all add: url_char_def)
  have m: "is_object_id ''65a00000000000000000ffff''"
      "\<forall>d \<in> set (docs gallery). img_id d \<noteq> toLowerCase ''65a00000000000000000ffff''"
      "toLowerCase ''65a00000000000000000ffff'' \<notin> set (map img_id (docs gallery))"
    by (simp_all add: sample_gallery sample_well_formed)
  show ?thesis
    using h a c m
      download_by_id_contract [OF h, of legacy "''65A0000000000000000000B2''"
        "''https://cdn.example/old.png''"]
      download_by_id_contract [OF h, of legacy "''65a00000000000000000ffff''"
        "''https://cdn.example/old.png''"]
    by blast
qed

text \<open>
  Claim C6 as stated fails twice. \<^verbatim>\<open>zz\<close> is the identifier of no stored document,
  yet the request is answered 500, because the cast to an ObjectId rejects before any
  lookup. And the document whose path is \<^verbatim>\<open>https://cdn.example/my cat.png\<close> is
  redirected to \<^verbatim>\<open>https://cdn.example/my%20cat.png\<close>, which is not exactly its path.
\<close>

theorem download_by_id_contract_counterexample:
  "''zz'' \<notin> set (map img_id (docs gallery))
   \<and> download_by_id calm ''zz'' gallery
       = (Json 500 (ErrorBody ''Failed to download image''),
          console_error ''Download error:'' (CastError ''zz'') gallery)
   \<and> fst (download_by_id calm ''zz'' gallery) \<noteq> Json 404 (ErrorBody ''Image not found'')
   \<and> spaced \<in> set (docs album) \<and> img_id spaced = ''65a0000000000000000000f8''
   \<and> img_path spaced = Some ''https://cdn.example/my cat.png''
   \<and> download_by_id calm ''65a0000000000000000000f8'' album
       = (Redirect 302 ''https://cdn.example/my%20cat.png'', album)
   \<and> fst (download_by_id calm ''65a0000000000000000000f8'' album)
       \<noteq> Redirect 302 ''https://cdn.example/my cat.png''"
proof -
  have z: "download_by_id calm ''zz'' gallery
       = (Json 500 (ErrorBody ''Failed to download image''),
          console_error ''Download error:'' (CastError ''zz'') gallery)"
    by (simp add: download_by_id_def findById_def sample_ids)
  have l: "location calm (Some ''https://cdn.example/my cat.png'')
       = ''https://cdn.example/my%20cat.png''"
    by (simp add: location_def sample_envs encodeUrl_keeps_def encodeURI_char_def
        encodeURI_keeps_def pct_def hex_upper_def)
  have s: "download_by_id calm ''65a0000000000000000000f8'' album
       = (Redirect 302 ''https://cdn.example/my%20cat.png'', album)"
    using l by (simp add: download_by_id_def findById_def sample_ids sample_envs sample_album)
  show ?thesis
    using z s by (simp add: sample_gallery sample_album)
qed

section \<open>The deletion handle\<close>

lemma strip_extension_single_dot:
  assumes "dots s \<le> 1"
  shows "hd (split_on CHR ''.'' s) = strip_extension s"
proof (cases "CHR ''.'' \<in> set s")
  case False
  then have "takeWhile (\<lambda>x. x \<noteq> CHR ''.'') s = s"
    by (intro takeWhile_eq_all_conv [THEN iffD2]) auto
  with False show ?thesis by (simp add: hd_split_on strip_extension_def)
next
  case True
  then obtain a b where s: "s = a @ CHR ''.'' # b" and a: "CHR ''.'' \<notin> set a"
    by (auto dest: split_list_first)
  have "filter (\<lambda>c. c = CHR ''.'') b = []"
    using assms by (simp add: dots_def s)
  then have b: "CHR ''.'' \<notin> set b"
    by (auto simp: filter_empty_conv)
  have t: "takeWhile (\<lambda>x. x \<noteq> CHR ''.'') s = a"
    unfolding s using a by (subst takeWhile_append2) auto
  have "dropWhile (\<lambda>c. c \<noteq> CHR ''.'') (rev s) = CHR ''.'' # rev a"
    unfolding s rev_append rev.simps append_assoc using b
    by (subst dropWhile_append2) auto
  then show ?thesis
    using True t by (simp add: hd_split_on strip_extension_def)
qed

text \<open>
  Claim C5, as the code has it. For a document matched by \<^verbatim>\<open>DELETE /api/images/:id\<close>:
  a stored \<^verbatim>\<open>public_id\<close> that is not the empty string is the handle sent to the Media
  Store. When \<^verbatim>\<open>public_id\<close> is missing or empty and \<^verbatim>\<open>path\<close> is a non-empty string
  whose last segment has at most one dot, the handle sent is that segment without its
  extension, unless this is the empty string, in which case nothing is sent. Segments with
  several dots are left open here.
\<close>

theorem delete_image_handle:
  assumes "find_fault e = None" and "distinct (map img_id (docs w))"
    and "im \<in> set (docs w)" and "castObjectId e i = Some (img_id im)"
  shows "(img_public_id im = Some p \<and> p \<noteq> [] \<longrightarrow>
            destroy_calls (snd (delete_image e i w)) = destroy_calls w @ [p])
       \<and> (\<not> truthy (img_public_id im) \<and> img_path im = Some q \<and> q \<noteq> []
            \<and> dots (last_segment q) \<le> 1 \<and> strip_extension (last_segment q) \<noteq> [] \<longrightarrow>
            destroy_calls (snd (delete_image e i w))
              = destroy_calls w @ [strip_extension (last_segment q)])
       \<and> (\<not> truthy (img_public_id im) \<and> img_path im = Some q \<and> q \<noteq> []
            \<and> dots (last_segment q) \<le> 1 \<and> strip_extension (last_segment q) = [] \<longrightarrow>
            destroy_calls (snd (delete_image e i w)) = destroy_calls w)"
proof -
  have f: "findById e (docs w) i = Inr (Some im)"
    using assms by (rule findById_found)
  note d = destroy_calls_delete_image [OF f]
  have own: "img_public_id im = Some p \<Longrightarrow> p \<noteq> [] \<Longrightarrow> publicId_of im = Some p"
    by (simp add: publicId_of_def truthy_def)
  have derived: "\<not> truthy (img_public_id im) \<Longrightarrow> img_path im = Some q \<Longrightarrow> q \<noteq> [] \<Longrightarrow>
      dots (last_segment q) \<le> 1 \<Longrightarrow> publicId_of im = Some (strip_extension (last_segment q))"
    using strip_extension_single_dot [of "last_segment q"]
    by (simp add: publicId_of_def truthy_def last_segment_def)
  show ?thesis
    using d own derived by auto
qed

theorem delete_image_handle_witness:
  "find_fault calm = None \<and> distinct (map img_id (docs gallery))
   \<and> photo \<in> set (docs gallery) \<and> img_public_id photo = Some ''uploads/17-42''
   \<and> castObjectId calm ''65a0000000000000000000a1'' = Some (img_id photo)
   \<and> destroy_calls (snd (delete_image calm ''65a0000000000000000000a1'' gallery))
       = [''uploads/17-42'']
   \<and> legacy \<in> set (docs gallery) \<and> img_public_id legacy = None
   \<and> castObjectId calm ''65a0000000000000000000b2'' = Some (img_id legacy)
   \<and> img_path legacy = Some ''https://cdn.example/old.png''
   \<and> dots (last_segment ''https://cdn.example/old.png'') = 1
   \<and> destroy_calls (snd (delete_image calm ''65a0000000000000000000b2'' gallery)) = [''old'']
   \<and> hidden \<in> set (docs gallery) \<and> img_public_id hidden = None
   \<and> castObjectId calm ''65a0000000000000000000d4'' = Some (img_id hidden)
   \<and> img_path hidden = Some ''https://cdn.example/.png''
   \<and> strip_extension (last_segment ''https://cdn.example/.png'') = []
   \<and> destroy_calls (snd (delete_image calm ''65a0000000000000000000d4'' gallery)) = []"
proof -
  have h: "find_fault calm = None" "distinct (map img_id (docs gallery))"
    by (simp_all add: sample_envs sample_gallery)
  have m: "photo \<in> set (docs gallery)" "legacy \<in> set (docs gallery)"
      "hidden \<in> set (docs gallery)"
      "castObjectId calm ''65a0000000000000000000a1'' = Some (img_id photo)"
      "castObjectId calm ''65a0000000000000000000b2'' = Some (img_id legacy)"
      "castObjectId calm ''65a0000000000000000000d4'' = Some (img_id hidden)"
    by (simp_all add: sample_gallery sample_ids)
  have v: "img_public_id photo = Some ''uploads/17-42''" "img_public_id legacy = None"
      "img_path legacy = Some ''https://cdn.example/old.png''"
      "img_public_id hidden = None" "img_path hidden = Some ''https://cdn.example/.png''"
    by (simp_all add: photo_def legacy_def hidden_def)
  have s: "dots (last_segment ''https://cdn.example/old.png'') = 1"
      "strip_extension (last_segment ''https://cdn.example/old.png'') = ''old''"
      "dots (last_segment ''https://cdn.example/.png'') = 1"
      "strip_extension (last_segment ''https://cdn.example/.png'') = []"
    by (simp_all add: dots_def last_segment_def strip_extension_def)
  have t: "\<not> truthy None" "destroy_calls gallery = []"
    by (simp_all add: truthy_def sample_gallery)
  have p: "destroy_calls (snd (delete_image calm ''65a0000000000000000000a1'' gallery))
      = [''uploads/17-42'']"
    using delete_image_handle [OF h m(1) m(4), of "''uploads/17-42''" "[]"] v t by simp
  have l: "destroy_calls (snd (delete_image calm ''65a0000000000000000000b2'' gallery)) = [''old'']"
    using delete_image_handle [OF h m(2) m(5), of "[]" "''https://cdn.example/old.png''"] v s t
    by simp
  have d: "destroy_calls (snd (delete_image calm ''65a0000000000000000000d4'' gallery)) = []"
    using delete_image_handle [OF h m(3) m(6), of "[]" "''https://cdn.example/.png''"] v s t
    by simp
  show ?thesis
    using h m v s p l d by simp
qed

text \<open>
  Claim C5 as stated fails on three stored documents. With no \<^verbatim>\<open>public_id\<close> and the
  path \<^verbatim>\<open>https://cdn.example/photo.v2.png\<close> the handle sent is \<^verbatim>\<open>photo\<close>, not the last
  segment without its extension, \<^verbatim>\<open>photo.v2\<close>. With a \<^verbatim>\<open>public_id\<close> that is present but
  empty the handle sent comes from the path. With no \<^verbatim>\<open>public_id\<close> and the path
  \<^verbatim>\<open>https://cdn.example/.png\<close> nothing is sent at all.
\<close>

theorem delete_image_handle_counterexample:
  "dotted \<in> set (docs gallery) \<and> img_id dotted = ''65a0000000000000000000c3'' \<and> img_public_id dotted = None
   \<and> img_path dotted = Some ''https://cdn.example/photo.v2.png''
   \<and> strip_extension (last_segment ''https://cdn.example/photo.v2.png'') = ''photo.v2''
   \<and> destroy_calls (snd (delete_image calm ''65a0000000000000000000c3'' gallery)) = [''photo'']
   \<and> destroy_calls (snd (delete_image calm ''65a0000000000000000000c3'' gallery))
       \<noteq> destroy_calls gallery @ [strip_extension (last_segment ''https://cdn.example/photo.v2.png'')]
   \<and> blank \<in> set (docs gallery) \<and> img_id blank = ''65a0000000000000000000e5'' \<and> img_public_id blank = Some []
   \<and> destroy_calls (snd (delete_image calm ''65a0000000000000000000e5'' gallery)) = [''pic'']
   \<and> destroy_calls (snd (delete_image calm ''65a0000000000000000000e5'' gallery)) \<noteq> destroy_calls gallery @ [[]]
   \<and> hidden \<in> set (docs gallery) \<and> img_id hidden = ''65a0000000000000000000d4'' \<and> img_public_id hidden = None
   \<and> img_path hidden = Some ''https://cdn.example/.png''
   \<and> destroy_calls (snd (delete_image calm ''65a0000000000000000000d4'' gallery)) = []
   \<and> destroy_calls (snd (delete_image calm ''65a0000000000000000000d4'' gallery))
       \<noteq> destroy_calls gallery @ [strip_extension (last_segment ''https://cdn.example/.png'')]"
  by (simp add: calm_def gallery_def photo_def legacy_def dotted_def hidden_def blank_def
      truthy_def dots_def last_segment_def strip_extension_def delete_image_def findById_def
      findByIdAndDelete_def publicId_of_def destroy_def Let_def sample_ids)

section \<open>Uploading\<close>


lemma spec_type_check_accepted: "spec_type_check file \<Longrightarrow> fileFilter file = Inr True"
  by (auto simp: spec_type_check_def fileFilter_def allowed_names_def allowedTypes_test_def Let_def)

lemma filter_rejection_response:
  assumes "fileFilter p = Inl er" and "part_fieldname p = ''images''"
  shows "post_upload e (Some [p]) w = (error_middleware er, w)"
  using assms by (simp add: post_upload_def)




lemma handle_parts_none_accepted: "handle_parts e n ps w = (Inr [], w') \<Longrightarrow> w' = w"
proof (induction e n ps w arbitrary: w' rule: handle_parts.induct)
  case (1 e filesLeft w)
  then show ?case by simp
next
  case (2 e filesLeft q ps w)
  then show ?case
    by (auto simp: Let_def split: sum.splits bool.splits prod.splits if_splits)
qed

text \<open>
  Claim C3. The upload filter is meant to accept a file exactly when its lowercased
  extension and its declared MIME type are each one of jpeg, jpg, png, gif and webp. Every
  file the specification accepts is accepted (see above), but the pattern is tested without
  anchors: \<^verbatim>\<open>payload.jpgx\<close> declared as \<^verbatim>\<open>text/x-png-notes\<close> passes the filter
  although neither its extension nor its MIME type is one of the five, it is handed to the
  Media Store and a document is created for it.
\<close>

theorem fileFilter_accepts_outside_set:
  "part_originalname sneaky = ''payload.jpgx'' \<and> part_mimetype sneaky = ''text/x-png-notes''
   \<and> \<not> spec_type_check sneaky
   \<and> fileFilter sneaky = Inr True
   \<and> media_uploads (snd (post_upload quiet (Some [sneaky]) gallery)) = [''payload.jpgx'']
   \<and> length (docs (snd (post_upload quiet (Some [sneaky]) gallery))) = Suc (length (docs gallery))"
  by (simp add: sneaky_def quiet_def gallery_def spec_type_check_def allowed_names_def
      fileFilter_def allowedTypes_test_def toLowerCase_def path_extname_def lower_char_def
      post_upload_def upload_images_def fileSize_def mk_file_def newImage_def
      List.map_filter_simps enumerate_simps Let_def)




text \<open>
  Claim C10. A \<^verbatim>\<open>POST /api/upload\<close> request from which Multer accepts zero files is
  answered 201 with the success message and an empty list of created documents, and the
  state, the collection included, is unchanged.
\<close>

theorem upload_empty_batch:
  assumes "handle_parts e 10 ps w = (Inr [], w1)"
  shows "post_upload e (Some ps) w
           = (Json 201 (UploadBody ''Images uploaded successfully'' []), w)
       \<and> docs (snd (post_upload e (Some ps) w)) = docs w"
  using assms handle_parts_none_accepted [OF assms]
  by (simp add: post_upload_def upload_images_def List.map_filter_simps enumerate_simps)

theorem upload_empty_batch_witness:
  "handle_parts quiet 10 [] gallery = (Inr [], gallery)
   \<and> post_upload quiet (Some []) gallery
       = (Json 201 (UploadBody ''Images uploaded successfully'' []), gallery)"
  using upload_empty_batch [of quiet "[]" gallery gallery]
  by simp

section \<open>Gallery client\<close>

text \<open>
  Claim C8. After \<^verbatim>\<open>deleteImage(id)\<close> has received a successful response, the local
  list holds no image with that \<^verbatim>\<open>_id\<close> and still holds every image with another one; the
  detail view is closed when it showed an image with that \<^verbatim>\<open>_id\<close> and is left as it was
  otherwise.
\<close>

theorem deleteImage_success:
  "(\<forall>img \<in> set (images (deleteImage (Response True) i c)). img_id img \<noteq> i)
   \<and> (\<forall>img \<in> set (images c). img_id img \<noteq> i \<longrightarrow>
         img \<in> set (images (deleteImage (Response True) i c)))
   \<and> images (deleteImage (Response True) i c) = filter (\<lambda>img. img_id img \<noteq> i) (images c)
   \<and> ((\<exists>sel. selectedImage c = Some sel \<and> img_id sel = i) \<longrightarrow>
         selectedImage (deleteImage (Response True) i c) = None)
   \<and> (\<not> (\<exists>sel. selectedImage c = Some sel \<and> img_id sel = i) \<longrightarrow>
         selectedImage (deleteImage (Response True) i c) = selectedImage c)"
  by (auto simp: deleteImage_def Let_def split: option.splits)

theorem deleteImage_success_witness:
  "selectedImage viewer = Some (with_url photo) \<and> img_id (with_url photo) = ''65a0000000000000000000a1''
   \<and> images (deleteImage (Response True) ''65a0000000000000000000a1'' viewer) = [with_url legacy]
   \<and> selectedImage (deleteImage (Response True) ''65a0000000000000000000a1'' viewer) = None
   \<and> images (deleteImage (Response True) ''65a0000000000000000000b2'' viewer) = [with_url photo]
   \<and> selectedImage (deleteImage (Response True) ''65a0000000000000000000b2'' viewer) = Some (with_url photo)"
proof -
  have a: "selectedImage viewer = Some (with_url photo)" "img_id (with_url photo) = ''65a0000000000000000000a1''"
      "img_id (with_url legacy) = ''65a0000000000000000000b2''"
    by (simp_all add: viewer_def id_with_url photo_def legacy_def)
  have f1: "filter (\<lambda>img. img_id img \<noteq> ''65a0000000000000000000a1'') (images viewer) = [with_url legacy]"
    by (simp add: viewer_def a)
  have f2: "filter (\<lambda>img. img_id img \<noteq> ''65a0000000000000000000b2'') (images viewer) = [with_url photo]"
    by (simp add: viewer_def a)
  have s1: "\<exists>sel. selectedImage viewer = Some sel \<and> img_id sel = ''65a0000000000000000000a1''"
    using a by blast
  have s2: "\<not> (\<exists>sel. selectedImage viewer = Some sel \<and> img_id sel = ''65a0000000000000000000b2'')"
    using a by simp
  note t1 = deleteImage_success [of "''65a0000000000000000000a1''" viewer]
  note t2 = deleteImage_success [of "''65a0000000000000000000b2''" viewer]
  have "images (deleteImage (Response True) ''65a0000000000000000000a1'' viewer) = [with_url legacy]"
    using t1 f1 by metis
  moreover have "selectedImage (deleteImage (Response True) ''65a0000000000000000000a1'' viewer) = None"
    using t1 s1 by blast
  moreover have "images (deleteImage (Response True) ''65a0000000000000000000b2'' viewer) = [with_url photo]"
    using t2 f2 by metis
  moreover have "selectedImage (deleteImage (Response True) ''65a0000000000000000000b2'' viewer) = Some (with_url photo)"
    using t2 s2 a(1) by metis
  ultimately show ?thesis
    using a by blast
qed

end
